theory Spec2Isabelle
  imports Main "HOL-Library.Word"
begin

section \<open>Python values and exceptions\<close>

text \<open>
  The functions of \<^verbatim>\<open>ray/data/block.py\<close> dispatch on the runtime class of the value
  they are given. A value is modelled by the class test it passes: each constructor below
  stands for the instances of one class (subclasses included), and \<open>PObject\<close> for an
  instance of any class that none of the tests of the module recognises, named by its class.
  The contents of an Arrow table and of a pandas dataframe are never inspected by the
  module, so they are the type parameters \<open>'t\<close> and \<open>'d\<close>.
\<close>

datatype ('t, 'd) pyval =
    PNone
  | PBool bool
  | PInt int
  | PStr string
  | PBytes "8 word list"
  | PList "('t, 'd) pyval list"
  | PDict "(string \<times> ('t, 'd) pyval) list"
  | NDArray "('t, 'd) pyval list"
  | NPInt64 "64 word"
  | Table 't
  | DataFrame 'd
  | PObject string

text \<open>The exceptions the module raises or lets through, each with its message.\<close>

datatype error =
    ValueError string
  | TypeError string
  | AssertionError
  | NotImplementedError
  | ArrowConversionError string
  | ImportError string
  | OtherError string

text \<open>
  \<^verbatim>\<open>isinstance(v, int)\<close>: Python's \<open>bool\<close> is a subclass of \<open>int\<close>, numpy's
  \<open>int64\<close> is not.
\<close>

fun isinstance_int :: "('t, 'd) pyval \<Rightarrow> bool" where
  "isinstance_int (PInt i) = True"
| "isinstance_int (PBool b) = True"
| "isinstance_int v = False"

fun isinstance_ndarray :: "('t, 'd) pyval \<Rightarrow> bool" where
  "isinstance_ndarray (NDArray a) = True"
| "isinstance_ndarray v = False"

fun isinstance_Mapping :: "('t, 'd) pyval \<Rightarrow> bool" where
  "isinstance_Mapping (PDict kvs) = True"
| "isinstance_Mapping v = False"

fun isinstance_Table :: "('t, 'd) pyval \<Rightarrow> bool" where
  "isinstance_Table (Table t) = True"
| "isinstance_Table v = False"

fun isinstance_DataFrame :: "('t, 'd) pyval \<Rightarrow> bool" where
  "isinstance_DataFrame (DataFrame d) = True"
| "isinstance_DataFrame v = False"

fun isinstance_bytes :: "('t, 'd) pyval \<Rightarrow> bool" where
  "isinstance_bytes (PBytes b) = True"
| "isinstance_bytes v = False"

fun isinstance_list :: "('t, 'd) pyval \<Rightarrow> bool" where
  "isinstance_list (PList xs) = True"
| "isinstance_list v = False"

section \<open>BlockMetadata\<close>

text \<open>
  The dataclass \<^verbatim>\<open>BlockMetadata\<close>. A dataclass does not check the annotated types
  of its fields, so each field holds an arbitrary value.
\<close>

record ('t, 'd) BlockMetadata =
  num_rows :: "('t, 'd) pyval"
  size_bytes :: "('t, 'd) pyval"
  schema :: "('t, 'd) pyval"
  input_files :: "('t, 'd) pyval"
  exec_stats :: "('t, 'd) pyval"

text \<open>
  \<^verbatim>\<open>__post_init__\<close>: the fields are assigned first, then \<open>input_files\<close> is normalised,
  then the assertion on \<open>size_bytes\<close> runs. A failed assertion leaves no object behind.
\<close>

definition post_init :: "('t, 'd) BlockMetadata \<Rightarrow> error + ('t, 'd) BlockMetadata" where
  "post_init self =
     (let self1 = (if input_files self = PNone then self\<lparr>input_files := PList []\<rparr> else self)
      in if size_bytes self1 \<noteq> PNone
         then (if isinstance_int (size_bytes self1) then Inr self1 else Inl AssertionError)
         else Inr self1)"

text \<open>The generated \<^verbatim>\<open>__init__\<close> of the dataclass: store the five fields, run \<open>post_init\<close>.\<close>

definition new_BlockMetadata ::
  "('t, 'd) pyval \<Rightarrow> ('t, 'd) pyval \<Rightarrow> ('t, 'd) pyval \<Rightarrow> ('t, 'd) pyval \<Rightarrow> ('t, 'd) pyval
   \<Rightarrow> error + ('t, 'd) BlockMetadata" where
  "new_BlockMetadata nr sb sc files es =
     post_init \<lparr>num_rows = nr, size_bytes = sb, schema = sc, input_files = files, exec_stats = es\<rparr>"

section \<open>Rendering values in messages\<close>

text \<open>
  The messages of the module are built with f-strings. Formatting a \<^verbatim>\<open>str\<close> gives the
  string itself and formatting None gives \<^verbatim>\<open>None\<close>; formatting a list gives the
  \<^verbatim>\<open>repr\<close> of its elements between brackets. The \<^verbatim>\<open>repr\<close> of a string puts it between
  single quotes; the strings rendered here hold no quote, backslash or unprintable
  character, so nothing is escaped.
\<close>

definition squote :: string where
  "squote = [CHR 0x27]"

fun py_format :: "string option \<Rightarrow> string" where
  "py_format None = ''None''"
| "py_format (Some s) = s"

fun py_repr :: "string option \<Rightarrow> string" where
  "py_repr None = ''None''"
| "py_repr (Some s) = squote @ s @ squote"

fun join :: "string \<Rightarrow> string list \<Rightarrow> string" where
  "join sep [] = []"
| "join sep [x] = x"
| "join sep (x # y # ys) = x @ sep @ join sep (y # ys)"

definition py_str_list :: "string option list \<Rightarrow> string" where
  "py_str_list xs = ''['' @ join '', '' (map py_repr xs) @ '']''"

text \<open>\<^verbatim>\<open>needle in haystack\<close> on strings.\<close>

fun starts_with :: "string \<Rightarrow> string \<Rightarrow> bool" where
  "starts_with s [] = True"
| "starts_with [] (p # ps) = False"
| "starts_with (c # cs) (p # ps) = (c = p \<and> starts_with cs ps)"

fun str_contains :: "string \<Rightarrow> string \<Rightarrow> bool" where
  "str_contains [] needle = (needle = [])"
| "str_contains (c # cs) needle = (starts_with (c # cs) needle \<or> str_contains cs needle)"

fun error_message :: "error \<Rightarrow> string" where
  "error_message (ValueError m) = m"
| "error_message (TypeError m) = m"
| "error_message AssertionError = []"
| "error_message NotImplementedError = []"
| "error_message (ArrowConversionError m) = m"
| "error_message (ImportError m) = m"
| "error_message (OtherError m) = m"

section \<open>Batch formats\<close>

definition VALID_BATCH_FORMATS :: "string option list" where
  "VALID_BATCH_FORMATS = [Some ''pandas'', Some ''pyarrow'', Some ''numpy'', None]"

definition DEFAULT_BATCH_FORMAT :: string where
  "DEFAULT_BATCH_FORMAT = ''numpy''"

text \<open>
  \<^verbatim>\<open>_apply_batch_format\<close>, on its annotated argument type \<^verbatim>\<open>Optional[str]\<close>. The
  membership test and the message both see the value after \<^verbatim>\<open>"default"\<close> has been resolved.
\<close>

definition apply_batch_format :: "string option \<Rightarrow> error + string option" where
  "apply_batch_format given_batch_format =
     (let given = (if given_batch_format = Some ''default''
                   then Some DEFAULT_BATCH_FORMAT else given_batch_format)
      in if given \<notin> set VALID_BATCH_FORMATS
         then Inl (ValueError (''The given batch format '' @ py_format given
                     @ '' isn't allowed (must be one of ''
                     @ py_str_list VALID_BATCH_FORMATS @ '').''))
         else Inr given)"

section \<open>BlockAccessor\<close>

text \<open>
  An accessor object is given by the methods its class defines. In the base class every
  conversion raises \<^verbatim>\<open>NotImplementedError\<close>, except \<^verbatim>\<open>to_default\<close>, which calls
  \<^verbatim>\<open>to_block\<close>; a field is None where the class of the object inherits the method of the
  base class, and holds the outcome of the overriding method otherwise.
\<close>

record ('t, 'd) BlockAccessor =
  to_pandas_impl :: "(error + ('t, 'd) pyval) option"
  to_numpy_impl :: "(('t, 'd) pyval \<Rightarrow> error + ('t, 'd) pyval) option"
  to_arrow_impl :: "(error + ('t, 'd) pyval) option"
  to_block_impl :: "(error + ('t, 'd) pyval) option"
  to_default_impl :: "(error + ('t, 'd) pyval) option"

definition to_pandas :: "('t, 'd) BlockAccessor \<Rightarrow> error + ('t, 'd) pyval" where
  "to_pandas self = (case to_pandas_impl self of None \<Rightarrow> Inl NotImplementedError | Some r \<Rightarrow> r)"

definition to_numpy :: "('t, 'd) BlockAccessor \<Rightarrow> ('t, 'd) pyval \<Rightarrow> error + ('t, 'd) pyval" where
  "to_numpy self columns =
     (case to_numpy_impl self of None \<Rightarrow> Inl NotImplementedError | Some f \<Rightarrow> f columns)"

definition to_arrow :: "('t, 'd) BlockAccessor \<Rightarrow> error + ('t, 'd) pyval" where
  "to_arrow self = (case to_arrow_impl self of None \<Rightarrow> Inl NotImplementedError | Some r \<Rightarrow> r)"

definition to_block :: "('t, 'd) BlockAccessor \<Rightarrow> error + ('t, 'd) pyval" where
  "to_block self = (case to_block_impl self of None \<Rightarrow> Inl NotImplementedError | Some r \<Rightarrow> r)"

definition to_default :: "('t, 'd) BlockAccessor \<Rightarrow> error + ('t, 'd) pyval" where
  "to_default self = (case to_default_impl self of None \<Rightarrow> to_block self | Some r \<Rightarrow> r)"

text \<open>\<^verbatim>\<open>to_numpy()\<close> is called without argument: \<open>columns\<close> takes its default, None.\<close>

definition to_batch_format ::
  "('t, 'd) BlockAccessor \<Rightarrow> string option \<Rightarrow> error + ('t, 'd) pyval" where
  "to_batch_format self batch_format =
     (if batch_format = None then to_block self
      else if batch_format = Some ''default'' \<or> batch_format = Some ''native''
        then to_default self
      else if batch_format = Some ''pandas'' then to_pandas self
      else if batch_format = Some ''pyarrow'' then to_arrow self
      else if batch_format = Some ''numpy'' then to_numpy self PNone
      else Inl (ValueError (''The batch format must be one of ''
                  @ py_str_list VALID_BATCH_FORMATS @ '', got: '' @ py_format batch_format)))"

text \<open>An object of the base class itself: nothing is overridden.\<close>

definition base_accessor :: "('t, 'd) BlockAccessor" where
  "base_accessor = \<lparr>to_pandas_impl = None, to_numpy_impl = None, to_arrow_impl = None,
                     to_block_impl = None, to_default_impl = None\<rparr>"

section \<open>What the module calls but does not define\<close>

text \<open>
  The module calls helpers that live elsewhere: the renderings \<^verbatim>\<open>str\<close>, \<^verbatim>\<open>type\<close> and
  \<^verbatim>\<open>_truncated_repr\<close>, the version check \<^verbatim>\<open>_check_pyarrow_version\<close> (followed by the
  imports of pandas and pyarrow), and the three constructors of the block implementations:
  \<^verbatim>\<open>ArrowBlockAccessor.from_bytes\<close>, \<^verbatim>\<open>ArrowBlockBuilder._table_from_pydict\<close> and
  \<^verbatim>\<open>PandasBlockAccessor.numpy_to_block\<close>. They are parameters of the model. Each
  constructor either raises or returns a table of its own representation.
  \<open>check_pyarrow_version\<close> is None when the check and the imports return normally, and
  the exception they raise otherwise.
\<close>

record ('t, 'd) runtime =
  py_str :: "('t, 'd) pyval \<Rightarrow> string"
  py_type :: "('t, 'd) pyval \<Rightarrow> string"
  truncated_repr :: "('t, 'd) pyval \<Rightarrow> string"
  check_pyarrow_version :: "error option"
  from_bytes :: "8 word list \<Rightarrow> error + 't"
  table_from_pydict :: "('t, 'd) pyval \<Rightarrow> error + 't"
  numpy_to_block :: "('t, 'd) pyval \<Rightarrow> error + 'd"

text \<open>The log of the process: the keys \<open>log_once\<close> has seen and the warnings emitted.\<close>

record log_state =
  logged_keys :: "string list"
  warnings :: "string list"

text \<open>
  Modelled from the spec: \<^verbatim>\<open>ray.util.log_once\<close> is not part of the module. The spec
  describes a process-wide set of warning keys, empty at process start, checked and set
  per key and never reset: the first call for a key answers True and records the key,
  every later call for it answers False.
\<close>

definition log_once :: "string \<Rightarrow> log_state \<Rightarrow> bool \<times> log_state" where
  "log_once key s =
     (if key \<in> set (logged_keys s) then (False, s)
      else (True, s\<lparr>logged_keys := key # logged_keys s\<rparr>))"

definition logger_warning :: "string \<Rightarrow> log_state \<Rightarrow> log_state" where
  "logger_warning msg s = s\<lparr>warnings := warnings s @ [msg]\<rparr>"

section \<open>From batches to blocks\<close>

datatype BlockType = ARROW | PANDAS

definition batch_to_arrow_block ::
  "('t, 'd) runtime \<Rightarrow> ('t, 'd) pyval \<Rightarrow> error + ('t, 'd) pyval" where
  "batch_to_arrow_block rt batch =
     (case table_from_pydict rt batch of Inl e \<Rightarrow> Inl e | Inr t \<Rightarrow> Inr (Table t))"

definition batch_to_pandas_block ::
  "('t, 'd) runtime \<Rightarrow> ('t, 'd) pyval \<Rightarrow> error + ('t, 'd) pyval" where
  "batch_to_pandas_block rt batch =
     (case numpy_to_block rt batch of Inl e \<Rightarrow> Inl e | Inr d \<Rightarrow> Inr (DataFrame d))"

text \<open>
  The handler of \<^verbatim>\<open>except ArrowConversionError as e\<close>: it warns once per process, then
  falls back to pandas when no block type was asked for and raises \<open>e\<close> again otherwise.
\<close>

definition on_arrow_conversion_error ::
  "('t, 'd) runtime \<Rightarrow> ('t, 'd) pyval \<Rightarrow> BlockType option \<Rightarrow> string \<Rightarrow> log_state
   \<Rightarrow> (error + ('t, 'd) pyval) \<times> log_state" where
  "on_arrow_conversion_error rt batch block_type e s =
     (let (first, s1) = log_once ''_fallback_to_pandas_block_warning'' s;
          s2 = (if first
                then logger_warning (''Failed to convert batch to Arrow due to: '' @ e
                                       @ ''; falling back to Pandas block'') s1
                else s1)
      in if block_type = None then (batch_to_pandas_block rt batch, s2)
         else (Inl (ArrowConversionError e), s2))"

text \<open>
  \<^verbatim>\<open>batch_to_block\<close>. Only \<open>ArrowConversionError\<close> is caught; any other exception of the
  Arrow conversion leaves the function as it is.
\<close>

definition batch_to_block ::
  "('t, 'd) runtime \<Rightarrow> ('t, 'd) pyval \<Rightarrow> BlockType option \<Rightarrow> log_state
   \<Rightarrow> (error + ('t, 'd) pyval) \<times> log_state" where
  "batch_to_block rt batch block_type s =
     (if isinstance_ndarray batch
      then (Inl (ValueError (''Error validating '' @ truncated_repr rt batch
                   @ '': Standalone numpy arrays are not allowed in Ray 2.5. ''
                   @ ''Return a dict of field -> array, ''
                   @ ''e.g., `{'data': array}` instead of `array`.'')), s)
      else if isinstance_Mapping batch
      then (if block_type = None \<or> block_type = Some ARROW
            then (case batch_to_arrow_block rt batch of
                    Inr block \<Rightarrow> (Inr block, s)
                  | Inl err \<Rightarrow>
                      (case err of
                         ArrowConversionError e \<Rightarrow>
                           on_arrow_conversion_error rt batch block_type e s
                       | _ \<Rightarrow> (Inl err, s)))
            else (if block_type = Some PANDAS
                  then (batch_to_pandas_block rt batch, s)
                  else (Inl AssertionError, s)))
      else (Inr batch, s))"

section \<open>From blocks to accessors\<close>

text \<open>The two accessor classes \<open>for_block\<close> instantiates, each wrapping its table.\<close>

datatype ('t, 'd) accessor = ArrowBlockAccessor 't | PandasBlockAccessor 'd

definition for_block :: "('t, 'd) runtime \<Rightarrow> ('t, 'd) pyval \<Rightarrow> error + ('t, 'd) accessor" where
  "for_block rt block =
     (case check_pyarrow_version rt of
        Some e \<Rightarrow> Inl e
      | None \<Rightarrow>
          (case block of
             Table t \<Rightarrow> Inr (ArrowBlockAccessor t)
           | DataFrame d \<Rightarrow> Inr (PandasBlockAccessor d)
           | PBytes b \<Rightarrow>
               (case from_bytes rt b of Inl e \<Rightarrow> Inl e | Inr t \<Rightarrow> Inr (ArrowBlockAccessor t))
           | PList xs \<Rightarrow>
               Inl (ValueError (''Error validating '' @ truncated_repr rt block
                      @ '': Standalone Python objects are not allowed in Ray 2.5. ''
                      @ ''To use Python objects in a dataset, ''
                      @ ''wrap them in a dict of numpy arrays, e.g., ''
                      @ ''return `{'item': batch}` instead of just `batch`.''))
           | _ \<Rightarrow>
               Inl (TypeError (''Not a block type: '' @ py_str rt block
                      @ '' ('' @ py_type rt block @ '')''))))"

section \<open>Execution statistics\<close>

text \<open>
  The expression \<^verbatim>\<open>int(ru_maxrss * 1e3)\<close> converts the integer reading to a double,
  multiplies two doubles and truncates the product. Every double that occurs is a whole
  number, so a double is modelled by the integer it denotes, and each operation rounds the
  exact result to the nearest number with a 53-bit significand, ties to even, as IEEE 754
  arithmetic does. A reading is a C \<^verbatim>\<open>long\<close>, so no product leaves the range of doubles.
\<close>

fun bitlen :: "nat \<Rightarrow> nat" where
  "bitlen n = (if n = 0 then 0 else Suc (bitlen (n div 2)))"

declare bitlen.simps [simp del]

definition round_to_double :: "nat \<Rightarrow> nat" where
  "round_to_double m =
     (if m < 2 ^ 53 then m
      else let e = bitlen m - 53;
               q = m div 2 ^ e;
               r = m mod 2 ^ e;
               half = 2 ^ (e - 1)
           in (if half < r \<or> (r = half \<and> odd q) then q + 1 else q) * 2 ^ e)"

text \<open>\<^verbatim>\<open>float(i)\<close> for an integer \<open>i\<close>: the sign is kept, the magnitude is rounded.\<close>

definition double_of_int :: "int \<Rightarrow> int" where
  "double_of_int i = sgn i * int (round_to_double (nat \<bar>i\<bar>))"

text \<open>The product of two whole doubles: the exact product, rounded.\<close>

definition double_mul :: "int \<Rightarrow> int \<Rightarrow> int" where
  "double_mul x y = double_of_int (x * y)"

text \<open>\<^verbatim>\<open>int(x)\<close> truncates towards zero, which leaves a whole double as it is.\<close>

definition int_of_double :: "int \<Rightarrow> int" where
  "int_of_double x = x"

text \<open>
  The clocks return floats, of which only the difference is taken: they are values of a
  type \<open>'f\<close> with a subtraction supplied by the environment. \<open>udf_time_s\<close> starts as the
  integer 0, so a time field holds either kind of number.
\<close>

datatype 'f pynum = IntNum int | FloatNum 'f

record 'f BlockExecStats =
  start_time_s :: "'f pynum option"
  end_time_s :: "'f pynum option"
  wall_time_s :: "'f pynum option"
  udf_time_s :: "'f pynum option"
  cpu_time_s :: "'f pynum option"
  node_id :: string
  max_rss_bytes :: int
  task_idx :: "int option"

text \<open>
  What the process reads from its surroundings when \<open>build\<close> runs: the two clocks, the
  node id of the runtime context, \<^verbatim>\<open>getrusage(RUSAGE_SELF).ru_maxrss\<close> where the
  \<^verbatim>\<open>resource\<close> module could be imported (None where the import failed and
  \<^verbatim>\<open>resource\<close> is None), and the \<^verbatim>\<open>rss\<close> that psutil reports for the process.
\<close>

record 'f process_env =
  perf_counter :: 'f
  process_time :: 'f
  float_sub :: "'f \<Rightarrow> 'f \<Rightarrow> 'f"
  get_node_id :: string
  ru_maxrss :: "64 word option"
  memory_info_rss :: int

definition new_BlockExecStats :: "'f process_env \<Rightarrow> 'f BlockExecStats" where
  "new_BlockExecStats env =
     \<lparr>start_time_s = None, end_time_s = None, wall_time_s = None,
      udf_time_s = Some (IntNum 0), cpu_time_s = None,
      node_id = get_node_id env, max_rss_bytes = 0, task_idx = None\<rparr>"

record 'f BlockExecStatsBuilder =
  start_time :: 'f
  start_cpu :: 'f
  end_time :: "'f option"
  end_cpu :: "'f option"

definition new_BlockExecStatsBuilder :: "'f process_env \<Rightarrow> 'f BlockExecStatsBuilder" where
  "new_BlockExecStatsBuilder env =
     \<lparr>start_time = perf_counter env, start_cpu = process_time env,
      end_time = None, end_cpu = None\<rparr>"

text \<open>\<^verbatim>\<open>build\<close> returns the stats; the builder, which it updates, is returned with them.\<close>

definition build ::
  "'f BlockExecStatsBuilder \<Rightarrow> 'f process_env \<Rightarrow> 'f BlockExecStats \<times> 'f BlockExecStatsBuilder" where
  "build self env =
     (let self1 = self\<lparr>end_time := Some (perf_counter env), end_cpu := Some (process_time env)\<rparr>;
          stats = new_BlockExecStats env;
          stats1 = stats\<lparr>start_time_s := Some (FloatNum (start_time self1)),
                         end_time_s := Some (FloatNum (perf_counter env)),
                         wall_time_s := Some (FloatNum
                            (float_sub env (perf_counter env) (start_time self1))),
                         cpu_time_s := Some (FloatNum
                            (float_sub env (process_time env) (start_cpu self1)))\<rparr>;
          stats2 = (case ru_maxrss env of
                      None \<Rightarrow> stats1\<lparr>max_rss_bytes := memory_info_rss env\<rparr>
                    | Some reading \<Rightarrow>
                        stats1\<lparr>max_rss_bytes :=
                          int_of_double (double_mul (double_of_int (sint reading)) 1000)\<rparr>)
      in (stats2, self1))"

section \<open>A runtime to evaluate with\<close>

text \<open>
  A concrete instance of the parameters, for evaluating the functions above: tables are
  stood for by their number of columns, the Arrow conversion refuses a batch of more than
  one column, and the log is the one of a process that has just started.
\<close>

definition sample_runtime :: "(nat, nat) runtime" where
  "sample_runtime =
     \<lparr>py_str = (\<lambda>v. ''7''),
      py_type = (\<lambda>v. ''<class 'int'>''),
      truncated_repr = (\<lambda>v. ''[1, 2]''),
      check_pyarrow_version = None,
      from_bytes = (\<lambda>b. Inr (length b)),
      table_from_pydict =
        (\<lambda>v. case v of
               PDict kvs \<Rightarrow> if length kvs \<le> 1 then Inr (length kvs)
                            else Inl (ArrowConversionError ''mixed column'')
             | _ \<Rightarrow> Inl (OtherError ''not a dict'')),
      numpy_to_block =
        (\<lambda>v. case v of PDict kvs \<Rightarrow> Inr (length kvs) | _ \<Rightarrow> Inl (OtherError ''not a dict''))\<rparr>"

definition log_at_start :: log_state where
  "log_at_start = \<lparr>logged_keys = [], warnings = []\<rparr>"

text \<open>A process environment with whole-number clocks, for evaluating \<open>build\<close>.\<close>

definition sample_env :: "64 word option \<Rightarrow> int process_env" where
  "sample_env reading =
     \<lparr>perf_counter = 12, process_time = 5, float_sub = (\<lambda>a b. a - b),
      get_node_id = ''node-1'', ru_maxrss = reading, memory_info_rss = 52428800\<rparr>"

section \<open>Properties of BlockMetadata\<close>

text \<open>
  Claim C6. A BlockMetadata with a non-None \<open>size_bytes\<close> is constructed exactly when
  \<open>size_bytes\<close> is an instance of Python's \<open>int\<close>; any other value, a numpy integer in
  particular, fails the assertion. A None \<open>size_bytes\<close> is accepted, and so are a None
  \<open>num_rows\<close> and a None \<open>schema\<close>: neither field is checked at all.
\<close>

theorem BlockMetadata_size_bytes_int:
  "(sb \<noteq> PNone \<longrightarrow>
      ((\<exists>m. new_BlockMetadata nr sb sc files es = Inr m) \<longleftrightarrow> isinstance_int sb)
      \<and> (\<not> isinstance_int sb \<longrightarrow> new_BlockMetadata nr sb sc files es = Inl AssertionError))
   \<and> new_BlockMetadata nr (NPInt64 w) sc files es = Inl AssertionError
   \<and> (\<exists>m. new_BlockMetadata nr PNone sc files es = Inr m \<and> size_bytes m = PNone)
   \<and> (\<exists>m. new_BlockMetadata PNone PNone PNone files es = Inr m
          \<and> num_rows m = PNone \<and> size_bytes m = PNone \<and> schema m = PNone)
   \<and> (isinstance_int sb \<longrightarrow>
        (\<exists>m. new_BlockMetadata PNone sb PNone files es = Inr m
           \<and> num_rows m = PNone \<and> size_bytes m = sb \<and> schema m = PNone))"
  by (auto simp: new_BlockMetadata_def post_init_def Let_def)

theorem BlockMetadata_size_bytes_int_witness:
  "PInt 4096 \<noteq> (PNone :: (unit, unit) pyval)
   \<and> isinstance_int (PInt 4096 :: (unit, unit) pyval)
   \<and> (\<exists>m. new_BlockMetadata (PInt 3) (PInt 4096 :: (unit, unit) pyval) PNone PNone PNone = Inr m)
   \<and> NPInt64 4096 \<noteq> (PNone :: (unit, unit) pyval)
   \<and> \<not> isinstance_int (NPInt64 4096 :: (unit, unit) pyval)
   \<and> new_BlockMetadata (PInt 3) (NPInt64 4096 :: (unit, unit) pyval) PNone PNone PNone
       = Inl AssertionError"
  using BlockMetadata_size_bytes_int
          [of "PInt 4096 :: (unit, unit) pyval" "PInt 3" PNone PNone PNone 4096]
        BlockMetadata_size_bytes_int
          [of "NPInt64 4096 :: (unit, unit) pyval" "PInt 3" PNone PNone PNone 4096]
  by simp

text \<open>
  Claim C7. A BlockMetadata constructed with \<open>input_files = None\<close> has the empty list in
  that field, never None; any other value given for \<open>input_files\<close> is kept as it is.
\<close>

theorem BlockMetadata_input_files_normalised:
  "new_BlockMetadata nr sb sc files es = Inr m \<Longrightarrow>
     input_files m = (if files = PNone then PList [] else files) \<and> input_files m \<noteq> PNone"
  by (auto simp: new_BlockMetadata_def post_init_def Let_def split: if_splits)

theorem BlockMetadata_input_files_normalised_witness:
  "new_BlockMetadata (PInt 3) (PInt 24) PNone PNone PNone
     = Inr \<lparr>num_rows = PInt 3, size_bytes = PInt 24, schema = PNone,
            input_files = PList [], exec_stats = (PNone :: (unit, unit) pyval)\<rparr>
   \<and> input_files \<lparr>num_rows = PInt 3, size_bytes = PInt 24, schema = PNone,
            input_files = PList [], exec_stats = (PNone :: (unit, unit) pyval)\<rparr> = PList []"
proof -
  have c: "new_BlockMetadata (PInt 3) (PInt 24) PNone PNone PNone
     = Inr \<lparr>num_rows = PInt 3, size_bytes = PInt 24, schema = PNone,
            input_files = PList [], exec_stats = (PNone :: (unit, unit) pyval)\<rparr>"
    by (simp add: new_BlockMetadata_def post_init_def)
  from BlockMetadata_input_files_normalised [OF c] c show ?thesis by simp
qed

section \<open>Properties of the batch formats\<close>

lemma valid_formats_rendered:
  "py_str_list VALID_BATCH_FORMATS = ''['pandas', 'pyarrow', 'numpy', None]''"
  by (simp add: py_str_list_def VALID_BATCH_FORMATS_def squote_def)

lemma valid_formats_member:
  "x \<in> set VALID_BATCH_FORMATS \<longleftrightarrow>
     x = Some ''pandas'' \<or> x = Some ''pyarrow'' \<or> x = Some ''numpy'' \<or> x = None"
  by (auto simp: VALID_BATCH_FORMATS_def)

text \<open>
  Claim C4, as stated, has the validator accept \<^verbatim>\<open>"native"\<close>. It does not: the value is
  not in \<open>VALID_BATCH_FORMATS\<close> and only \<^verbatim>\<open>"default"\<close> is resolved before the test.
\<close>

theorem apply_batch_format_native_counterexample:
  "apply_batch_format (Some ''native'')
     = Inl (ValueError
         ''The given batch format native isn't allowed (must be one of ['pandas', 'pyarrow', 'numpy', None]).'')"
  by (simp add: apply_batch_format_def valid_formats_rendered valid_formats_member
        DEFAULT_BATCH_FORMAT_def)

text \<open>
  Claim C4, amended. The validator accepts exactly None, \<^verbatim>\<open>"default"\<close>, \<^verbatim>\<open>"pandas"\<close>,
  \<^verbatim>\<open>"pyarrow"\<close> and \<^verbatim>\<open>"numpy"\<close>: it returns \<^verbatim>\<open>"numpy"\<close> for \<^verbatim>\<open>"default"\<close> and the value
  itself for the others. Every other string, \<^verbatim>\<open>"native"\<close> included, fails with a
  ValueError whose message gives the value and the list
  \<^verbatim>\<open>['pandas', 'pyarrow', 'numpy', None]\<close>.
\<close>

theorem apply_batch_format_accepts:
  "apply_batch_format None = Inr None
   \<and> apply_batch_format (Some ''default'') = Inr (Some DEFAULT_BATCH_FORMAT)
   \<and> DEFAULT_BATCH_FORMAT = ''numpy''
   \<and> apply_batch_format (Some ''pandas'') = Inr (Some ''pandas'')
   \<and> apply_batch_format (Some ''pyarrow'') = Inr (Some ''pyarrow'')
   \<and> apply_batch_format (Some ''numpy'') = Inr (Some ''numpy'')
   \<and> (f \<notin> {''default'', ''pandas'', ''pyarrow'', ''numpy''} \<longrightarrow>
        apply_batch_format (Some f)
          = Inl (ValueError (''The given batch format '' @ f
                   @ '' isn't allowed (must be one of ['pandas', 'pyarrow', 'numpy', None]).'')))"
  by (simp add: apply_batch_format_def valid_formats_rendered valid_formats_member
        DEFAULT_BATCH_FORMAT_def)

theorem apply_batch_format_accepts_witness:
  "''csv'' \<notin> {''default'', ''pandas'', ''pyarrow'', ''numpy''}
   \<and> apply_batch_format (Some ''csv'')
       = Inl (ValueError
           ''The given batch format csv isn't allowed (must be one of ['pandas', 'pyarrow', 'numpy', None]).'')
   \<and> apply_batch_format (Some ''default'') = Inr (Some ''numpy'')"
  using apply_batch_format_accepts [of "''csv''"] by (simp add: DEFAULT_BATCH_FORMAT_def)

text \<open>
  Claim C3, as stated, has the message of the error name the full set of allowed tags.
  The message names the members of \<open>VALID_BATCH_FORMATS\<close> only: \<^verbatim>\<open>"native"\<close> is a tag
  that \<open>to_batch_format\<close> dispatches on, and the message for a rejected tag does not
  mention it.
\<close>

theorem to_batch_format_message_counterexample:
  "to_batch_format (base_accessor\<lparr>to_block_impl := Some (Inr (Table ()))\<rparr>
                     :: (unit, unit) BlockAccessor) (Some ''native'') = Inr (Table ())
   \<and> to_batch_format (base_accessor\<lparr>to_block_impl := Some (Inr (Table ()))\<rparr>
                     :: (unit, unit) BlockAccessor) (Some ''csv'')
      = Inl (ValueError ''The batch format must be one of ['pandas', 'pyarrow', 'numpy', None], got: csv'')
   \<and> \<not> str_contains
          ''The batch format must be one of ['pandas', 'pyarrow', 'numpy', None], got: csv''
          ''native''
   \<and> \<not> str_contains
          ''The batch format must be one of ['pandas', 'pyarrow', 'numpy', None], got: csv''
          ''default''"
  by (simp add: to_batch_format_def to_default_def to_block_def base_accessor_def
        valid_formats_rendered)

text \<open>
  Claim C3, amended. For every accessor, \<open>to_batch_format\<close> dispatches on the tag: None
  gives the native block, \<^verbatim>\<open>"default"\<close> and \<^verbatim>\<open>"native"\<close> the default format,
  \<^verbatim>\<open>"pandas"\<close>, \<^verbatim>\<open>"pyarrow"\<close> and \<^verbatim>\<open>"numpy"\<close> the respective conversion. Every other
  tag fails with a ValueError whose message gives the list
  \<^verbatim>\<open>['pandas', 'pyarrow', 'numpy', None]\<close> (without the tags \<^verbatim>\<open>"default"\<close> and
  \<^verbatim>\<open>"native"\<close>) and then the offending tag.
\<close>

theorem to_batch_format_dispatch:
  "to_batch_format self None = to_block self
   \<and> to_batch_format self (Some ''default'') = to_default self
   \<and> to_batch_format self (Some ''native'') = to_default self
   \<and> to_batch_format self (Some ''pandas'') = to_pandas self
   \<and> to_batch_format self (Some ''pyarrow'') = to_arrow self
   \<and> to_batch_format self (Some ''numpy'') = to_numpy self PNone
   \<and> (f \<notin> {''default'', ''native'', ''pandas'', ''pyarrow'', ''numpy''} \<longrightarrow>
        to_batch_format self (Some f)
          = Inl (ValueError
              (''The batch format must be one of ['pandas', 'pyarrow', 'numpy', None], got: '' @ f)))"
  by (simp add: to_batch_format_def valid_formats_rendered)

theorem to_batch_format_dispatch_witness:
  "''parquet'' \<notin> {''default'', ''native'', ''pandas'', ''pyarrow'', ''numpy''}
   \<and> to_batch_format (base_accessor\<lparr>to_pandas_impl := Some (Inr (DataFrame ()))\<rparr>
                       :: (unit, unit) BlockAccessor) (Some ''parquet'')
       = Inl (ValueError
           ''The batch format must be one of ['pandas', 'pyarrow', 'numpy', None], got: parquet'')
   \<and> to_batch_format (base_accessor\<lparr>to_pandas_impl := Some (Inr (DataFrame ()))\<rparr>
                       :: (unit, unit) BlockAccessor) (Some ''pandas'')
       = Inr (DataFrame ())"
  using to_batch_format_dispatch
          [of "base_accessor\<lparr>to_pandas_impl := Some (Inr (DataFrame ()))\<rparr>
                 :: (unit, unit) BlockAccessor" "''parquet''"]
  by (simp add: to_pandas_def base_accessor_def)

text \<open>
  Claim C9. The \<open>to_default\<close> of the base class returns \<open>to_block\<close>, so for an accessor
  whose class does not override \<open>to_default\<close> the formats None, \<^verbatim>\<open>"default"\<close> and
  \<^verbatim>\<open>"native"\<close> all give the result of \<open>to_block\<close>.
\<close>

theorem to_default_is_to_block:
  "to_default_impl self = None \<Longrightarrow>
     to_default self = to_block self
     \<and> to_batch_format self None = to_block self
     \<and> to_batch_format self (Some ''default'') = to_block self
     \<and> to_batch_format self (Some ''native'') = to_block self"
  by (simp add: to_batch_format_def to_default_def)

theorem to_default_is_to_block_witness:
  "to_default_impl (base_accessor\<lparr>to_block_impl := Some (Inr (DataFrame (5::nat)))\<rparr>
                     :: (unit, nat) BlockAccessor) = None
   \<and> to_batch_format (base_accessor\<lparr>to_block_impl := Some (Inr (DataFrame (5::nat)))\<rparr>
                     :: (unit, nat) BlockAccessor) (Some ''native'') = Inr (DataFrame 5)
   \<and> to_batch_format (base_accessor\<lparr>to_block_impl := Some (Inr (DataFrame (5::nat)))\<rparr>
                     :: (unit, nat) BlockAccessor) (Some ''default'') = Inr (DataFrame 5)
   \<and> to_batch_format (base_accessor\<lparr>to_block_impl := Some (Inr (DataFrame (5::nat)))\<rparr>
                     :: (unit, nat) BlockAccessor) None = Inr (DataFrame 5)"
proof -
  have h: "to_default_impl (base_accessor\<lparr>to_block_impl := Some (Inr (DataFrame (5::nat)))\<rparr>
                     :: (unit, nat) BlockAccessor) = None"
    by (simp add: base_accessor_def)
  from to_default_is_to_block [OF h] h show ?thesis
    by (simp add: to_block_def)
qed

section \<open>Properties of the dispatch\<close>

lemma starts_with_append: "starts_with (p @ s) p"
  by (induction p) auto

lemma str_contains_suffix: "str_contains (n @ b) n"
proof (cases "n @ b")
  case Nil
  then show ?thesis by simp
next
  case (Cons c cs)
  have "starts_with (n @ b) n" by (rule starts_with_append)
  with Cons show ?thesis by simp
qed

lemma str_contains_mid: "str_contains (a @ n @ b) n"
  by (induction a) (auto simp: str_contains_suffix)

text \<open>
  Claim C2. Once the version check and the imports have passed, \<open>for_block\<close> returns the
  Arrow accessor for a pyarrow table and the pandas accessor for a dataframe; bytes go
  through \<open>from_bytes\<close> and what it returns is wrapped in the Arrow accessor; a list
  fails with a ValueError that tells the caller to wrap it in a dict; a value of any other
  class fails with a TypeError whose message names the class of the value.
\<close>

theorem for_block_dispatch:
  "check_pyarrow_version rt = None \<Longrightarrow>
     for_block rt (Table t) = Inr (ArrowBlockAccessor t)
     \<and> for_block rt (DataFrame d) = Inr (PandasBlockAccessor d)
     \<and> for_block rt (PBytes b)
         = (case from_bytes rt b of Inl e \<Rightarrow> Inl e | Inr t' \<Rightarrow> Inr (ArrowBlockAccessor t'))
     \<and> for_block rt (PList xs)
         = Inl (ValueError (''Error validating '' @ truncated_repr rt (PList xs)
              @ '': Standalone Python objects are not allowed in Ray 2.5. To use Python objects in a dataset, wrap them in a dict of numpy arrays, e.g., return `{'item': batch}` instead of just `batch`.''))
     \<and> (\<not> isinstance_Table v \<and> \<not> isinstance_DataFrame v
          \<and> \<not> isinstance_bytes v \<and> \<not> isinstance_list v \<longrightarrow>
         for_block rt v
           = Inl (TypeError (''Not a block type: '' @ py_str rt v @ '' ('' @ py_type rt v @ '')''))
         \<and> str_contains (error_message (projl (for_block rt v))) (py_type rt v))"
proof -
  assume chk: "check_pyarrow_version rt = None"
  have other: "for_block rt v
           = Inl (TypeError (''Not a block type: '' @ py_str rt v @ '' ('' @ py_type rt v @ '')''))"
    if "\<not> isinstance_Table v" "\<not> isinstance_DataFrame v"
       "\<not> isinstance_bytes v" "\<not> isinstance_list v"
    using that chk by (cases v) (simp_all add: for_block_def)
  have named: "str_contains (''Not a block type: '' @ py_str rt v @ '' ('' @ py_type rt v @ '')'')
                 (py_type rt v)"
    using str_contains_mid [of "''Not a block type: '' @ py_str rt v @ '' (''" "py_type rt v" "'')''"]
    by simp
  show ?thesis
    using chk other named by (simp add: for_block_def)
qed

theorem for_block_dispatch_witness:
  "check_pyarrow_version sample_runtime = None
   \<and> for_block sample_runtime (PInt 7) = Inl (TypeError ''Not a block type: 7 (<class 'int'>)'')
   \<and> for_block sample_runtime (PBytes [1, 2, 3]) = Inr (ArrowBlockAccessor 3)
   \<and> for_block sample_runtime (Table 2) = Inr (ArrowBlockAccessor 2)
   \<and> for_block sample_runtime (DataFrame 4) = Inr (PandasBlockAccessor 4)
   \<and> for_block sample_runtime (PList [PInt 1, PInt 2])
      = Inl (ValueError ''Error validating [1, 2]: Standalone Python objects are not allowed in Ray 2.5. To use Python objects in a dataset, wrap them in a dict of numpy arrays, e.g., return `{'item': batch}` instead of just `batch`.'')"
proof -
  have chk: "check_pyarrow_version sample_runtime = None"
    by (simp add: sample_runtime_def)
  from for_block_dispatch [OF chk, of 2 4 "[1, 2, 3]" "[PInt 1, PInt 2]" "PInt 7"] chk
  show ?thesis by (simp add: sample_runtime_def)
qed

text \<open>
  Claim C5. A bare numpy array given to \<open>batch_to_block\<close> fails, whatever block type is
  asked for, with a ValueError (not a TypeError) whose message holds the truncated
  rendering of the array and tells the caller to return a dict of field to array.
\<close>

theorem batch_to_block_ndarray_rejected:
  "batch_to_block rt (NDArray a) block_type s
     = (Inl (ValueError (''Error validating '' @ truncated_repr rt (NDArray a)
          @ '': Standalone numpy arrays are not allowed in Ray 2.5. Return a dict of field -> array, e.g., `{'data': array}` instead of `array`.'')), s)
   \<and> fst (batch_to_block rt (NDArray a) block_type s) \<noteq> Inl (TypeError m)
   \<and> str_contains (error_message (projl (fst (batch_to_block rt (NDArray a) block_type s))))
        (truncated_repr rt (NDArray a))
   \<and> str_contains (error_message (projl (fst (batch_to_block rt (NDArray a) block_type s))))
        ''Return a dict of field -> array, e.g., `{'data': array}` instead of `array`.''"
proof -
  have shown: "str_contains (''Error validating '' @ truncated_repr rt (NDArray a)
          @ '': Standalone numpy arrays are not allowed in Ray 2.5. Return a dict of field -> array, e.g., `{'data': array}` instead of `array`.'')
        (truncated_repr rt (NDArray a))"
    by (rule str_contains_mid)
  have told: "str_contains ((''Error validating '' @ truncated_repr rt (NDArray a)
          @ '': Standalone numpy arrays are not allowed in Ray 2.5. '')
          @ ''Return a dict of field -> array, e.g., `{'data': array}` instead of `array`.'' @ [])
        ''Return a dict of field -> array, e.g., `{'data': array}` instead of `array`.''"
    by (rule str_contains_mid)
  show ?thesis
    using shown told by (simp add: batch_to_block_def)
qed

text \<open>
  Claim C10. A value that is neither a numpy array nor a Mapping is returned by
  \<open>batch_to_block\<close> as it is, with no check and no error, whatever block type is asked
  for: a list or a string passes through unchanged.
\<close>

theorem batch_to_block_passthrough:
  "\<not> isinstance_ndarray batch \<Longrightarrow> \<not> isinstance_Mapping batch \<Longrightarrow>
     batch_to_block rt batch block_type s = (Inr batch, s)"
  by (simp add: batch_to_block_def)

theorem batch_to_block_passthrough_witness:
  "\<not> isinstance_ndarray (PList [PInt 1, PStr ''a''] :: (nat, nat) pyval)
   \<and> \<not> isinstance_Mapping (PList [PInt 1, PStr ''a''] :: (nat, nat) pyval)
   \<and> batch_to_block sample_runtime (PList [PInt 1, PStr ''a'']) (Some ARROW) log_at_start
       = (Inr (PList [PInt 1, PStr ''a'']), log_at_start)
   \<and> batch_to_block sample_runtime (PStr ''rows'') (Some PANDAS) log_at_start
       = (Inr (PStr ''rows''), log_at_start)"
  using batch_to_block_passthrough
          [of "PList [PInt 1, PStr ''a'']" sample_runtime "Some ARROW" log_at_start]
        batch_to_block_passthrough
          [of "PStr ''rows''" sample_runtime "Some PANDAS" log_at_start]
  by simp

text \<open>
  Claim C1. For a Mapping batch, with no block type or with ARROW asked for, the Arrow
  conversion is tried first and its table is the result when it returns one. When it
  raises \<open>ArrowConversionError\<close>: with no block type asked for, the result is what the
  pandas conversion gives, a dataframe block; with ARROW asked for, the same error
  reaches the caller. With PANDAS asked for, the result is what the pandas conversion
  gives, whatever the Arrow conversion would have done, and the log is untouched.
\<close>

theorem batch_to_block_mapping:
  "isinstance_Mapping batch \<Longrightarrow>
     ((block_type = None \<or> block_type = Some ARROW) \<and> table_from_pydict rt batch = Inr t \<longrightarrow>
        batch_to_block rt batch block_type s = (Inr (Table t), s))
     \<and> (table_from_pydict rt batch = Inl (ArrowConversionError e) \<longrightarrow>
          fst (batch_to_block rt batch None s) = batch_to_pandas_block rt batch
          \<and> (numpy_to_block rt batch = Inr d \<longrightarrow>
                fst (batch_to_block rt batch None s) = Inr (DataFrame d))
          \<and> fst (batch_to_block rt batch (Some ARROW) s) = Inl (ArrowConversionError e))
     \<and> batch_to_block rt batch (Some PANDAS) s = (batch_to_pandas_block rt batch, s)
     \<and> batch_to_block (rt\<lparr>table_from_pydict := arrow'\<rparr>) batch (Some PANDAS) s
         = batch_to_block rt batch (Some PANDAS) s
     \<and> (numpy_to_block rt batch = Inr d \<longrightarrow>
          batch_to_block rt batch (Some PANDAS) s = (Inr (DataFrame d), s))"
proof -
  assume m: "isinstance_Mapping batch"
  then have nd: "\<not> isinstance_ndarray batch"
    by (cases batch) simp_all
  have arrow_ok: "batch_to_block rt batch block_type s = (Inr (Table t), s)"
    if "block_type = None \<or> block_type = Some ARROW" "table_from_pydict rt batch = Inr t"
    using that m nd by (auto simp: batch_to_block_def batch_to_arrow_block_def)
  have fallback: "fst (batch_to_block rt batch None s) = batch_to_pandas_block rt batch"
    if "table_from_pydict rt batch = Inl (ArrowConversionError e)"
    using that m nd
    by (simp add: batch_to_block_def batch_to_arrow_block_def on_arrow_conversion_error_def
          Let_def split: prod.splits)
  have reraised: "fst (batch_to_block rt batch (Some ARROW) s) = Inl (ArrowConversionError e)"
    if "table_from_pydict rt batch = Inl (ArrowConversionError e)"
    using that m nd
    by (simp add: batch_to_block_def batch_to_arrow_block_def on_arrow_conversion_error_def
          Let_def split: prod.splits)
  have pandas: "batch_to_block r batch (Some PANDAS) s = (batch_to_pandas_block r batch, s)"
    for r :: "('a, 'b) runtime"
    using m nd by (simp add: batch_to_block_def)
  have same: "batch_to_pandas_block (rt\<lparr>table_from_pydict := arrow'\<rparr>) batch
                = batch_to_pandas_block rt batch"
    by (simp add: batch_to_pandas_block_def)
  have df: "batch_to_pandas_block rt batch = Inr (DataFrame d)"
    if "numpy_to_block rt batch = Inr d"
    using that by (simp add: batch_to_pandas_block_def)
  show ?thesis
    using arrow_ok fallback reraised pandas same df by simp
qed

theorem batch_to_block_mapping_witness:
  "isinstance_Mapping (PDict [(''x'', NDArray [PInt 1]), (''y'', NDArray [PStr ''a''])]
                         :: (nat, nat) pyval)
   \<and> table_from_pydict sample_runtime
        (PDict [(''x'', NDArray [PInt 1]), (''y'', NDArray [PStr ''a''])])
       = Inl (ArrowConversionError ''mixed column'')
   \<and> fst (batch_to_block sample_runtime
             (PDict [(''x'', NDArray [PInt 1]), (''y'', NDArray [PStr ''a''])]) None log_at_start)
       = Inr (DataFrame 2)
   \<and> fst (batch_to_block sample_runtime
             (PDict [(''x'', NDArray [PInt 1]), (''y'', NDArray [PStr ''a''])]) (Some ARROW)
             log_at_start)
       = Inl (ArrowConversionError ''mixed column'')
   \<and> batch_to_block sample_runtime
        (PDict [(''x'', NDArray [PInt 1]), (''y'', NDArray [PStr ''a''])]) (Some PANDAS)
        log_at_start
       = (Inr (DataFrame 2), log_at_start)"
proof -
  have m: "isinstance_Mapping (PDict [(''x'', NDArray [PInt 1]), (''y'', NDArray [PStr ''a''])]
                         :: (nat, nat) pyval)"
    by simp
  have a: "table_from_pydict sample_runtime
        (PDict [(''x'', NDArray [PInt 1]), (''y'', NDArray [PStr ''a''])])
       = Inl (ArrowConversionError ''mixed column'')"
    by (simp add: sample_runtime_def)
  have p: "numpy_to_block sample_runtime
        (PDict [(''x'', NDArray [PInt 1]), (''y'', NDArray [PStr ''a''])]) = Inr 2"
    by (simp add: sample_runtime_def)
  from batch_to_block_mapping
         [OF m, of None sample_runtime 0 log_at_start "''mixed column''" 2 "\<lambda>v. Inr 0"]
       m a p
  show ?thesis by (simp add: batch_to_pandas_block_def)
qed

section \<open>Properties of the execution statistics\<close>

lemma bitlen_le: "n < 2 ^ k \<Longrightarrow> bitlen n \<le> k"
proof (induction k arbitrary: n)
  case 0
  then show ?case by (simp add: bitlen.simps)
next
  case (Suc k)
  show ?case
  proof (cases "n = 0")
    case True
    then show ?thesis by (simp add: bitlen.simps)
  next
    case False
    from Suc.prems have "n div 2 < 2 ^ k" by simp
    then have "bitlen (n div 2) \<le> k" by (rule Suc.IH)
    with False show ?thesis by (subst bitlen.simps) simp
  qed
qed

lemma bitlen_gt: "2 ^ k \<le> n \<Longrightarrow> k < bitlen n"
proof (induction k arbitrary: n)
  case 0
  then show ?case by (subst bitlen.simps) simp
next
  case (Suc k)
  then have "2 ^ k \<le> n div 2" by simp
  then have "k < bitlen (n div 2)" by (rule Suc.IH)
  moreover have "0 < (2::nat) ^ Suc k" by simp
  with Suc.prems have "n \<noteq> 0" by linarith
  ultimately show ?case by (subst bitlen.simps) simp
qed

lemma round_small: "m < 2 ^ 53 \<Longrightarrow> round_to_double m = m"
  by (simp add: round_to_double_def)

text \<open>A number is a double when its low bits, below the 53 leading ones, are zero.\<close>

lemma round_exact:
  assumes dv: "2 ^ (bitlen m - 53) dvd m"
  shows "round_to_double m = m"
proof (cases "m < 2 ^ 53")
  case True
  then show ?thesis by (rule round_small)
next
  case False
  then have "53 < bitlen m" using bitlen_gt [of 53 m] by simp
  from dv have r0: "m mod 2 ^ (bitlen m - 53) = 0" by simp
  from dv have q: "m div 2 ^ (bitlen m - 53) * 2 ^ (bitlen m - 53) = m" by simp
  from False r0 q show ?thesis
    by (simp add: round_to_double_def Let_def)
qed

lemma round_times_1000:
  assumes "m * 1000 < 2 ^ 56"
  shows "round_to_double (m * 1000) = m * 1000"
proof (rule round_exact)
  from assms have "bitlen (m * 1000) \<le> 56" by (rule bitlen_le)
  then have "bitlen (m * 1000) - 53 \<le> 3" by simp
  then have "(2::nat) ^ (bitlen (m * 1000) - 53) dvd 2 ^ 3"
    by (rule le_imp_power_dvd)
  moreover have "(2::nat) ^ 3 dvd m * 1000" by simp
  ultimately show "2 ^ (bitlen (m * 1000) - 53) dvd m * 1000"
    by (rule dvd_trans)
qed

lemma times_1000_exact:
  assumes "\<bar>r\<bar> * 1000 < 2 ^ 56"
  shows "int_of_double (double_mul (double_of_int r) 1000) = r * 1000"
proof -
  from assms have small: "nat \<bar>r\<bar> < 2 ^ 53" by (simp add: nat_less_iff)
  have a: "double_of_int r = r"
    using small by (simp add: double_of_int_def round_small mult_sgn_abs)
  have n: "nat \<bar>r * 1000\<bar> = nat \<bar>r\<bar> * 1000"
    by (simp add: abs_mult nat_mult_distrib)
  from assms have "nat \<bar>r\<bar> * 1000 < 2 ^ 56"
    by (simp add: nat_less_iff)
  then have "round_to_double (nat \<bar>r\<bar> * 1000) = nat \<bar>r\<bar> * 1000"
    by (rule round_times_1000)
  then have rt: "round_to_double (nat \<bar>r * 1000\<bar>) = nat \<bar>r * 1000\<bar>"
    by (simp only: n)
  have "double_of_int (r * 1000) = sgn (r * 1000) * int (nat \<bar>r * 1000\<bar>)"
    by (simp only: double_of_int_def rt)
  also have "int (nat \<bar>r * 1000\<bar>) = \<bar>r * 1000\<bar>"
    by simp
  also have "sgn (r * 1000) * \<bar>r * 1000\<bar> = r * 1000"
    by (rule mult_sgn_abs)
  finally have b: "double_of_int (r * 1000) = r * 1000" .
  show ?thesis
    by (simp only: double_mul_def int_of_double_def a b)
qed

lemma build_max_rss:
  "max_rss_bytes (fst (build self env))
     = (case ru_maxrss env of
          None \<Rightarrow> memory_info_rss env
        | Some reading \<Rightarrow> int_of_double (double_mul (double_of_int (sint reading)) 1000))"
  by (simp add: build_def Let_def split: option.splits)

text \<open>
  A resident set that fits the \<open>2 ^ 56\<close> bytes of a 64-bit user address space is reported
  as fewer than \<open>2 ^ 46\<close> kilobytes, and for such a reading no rounding takes place.
\<close>

lemma reading_in_range: "\<bar>r :: int\<bar> < 2 ^ 46 \<Longrightarrow> \<bar>r\<bar> * 1000 < 2 ^ 56"
  by simp

text \<open>
  Claim C8. Where the resource module is available, \<open>build\<close> sets \<open>max_rss_bytes\<close> to
  \<^verbatim>\<open>int(ru_maxrss * 1e3)\<close>, the reading multiplied by 1000 and truncated to an integer:
  this is the reading times 1000, and not the reading times 1024, for every reading below
  \<open>2 ^ 46\<close> kilobytes in magnitude (more generally, whenever the product stays below
  \<open>2 ^ 56\<close>). Where the module is not available, \<open>max_rss_bytes\<close> is the current
  resident-set size that psutil reports for the process.
\<close>

theorem build_max_rss_bytes:
  "(ru_maxrss env = Some reading \<longrightarrow>
      max_rss_bytes (fst (build self env))
        = int_of_double (double_mul (double_of_int (sint reading)) 1000)
      \<and> (\<bar>sint reading\<bar> * 1000 < 2 ^ 56 \<longrightarrow>
           max_rss_bytes (fst (build self env)) = sint reading * 1000)
      \<and> (\<bar>sint reading\<bar> < 2 ^ 46 \<longrightarrow>
           max_rss_bytes (fst (build self env)) = sint reading * 1000
           \<and> (sint reading \<noteq> 0 \<longrightarrow>
                 max_rss_bytes (fst (build self env)) \<noteq> sint reading * 1024)))
   \<and> (ru_maxrss env = None \<longrightarrow>
        max_rss_bytes (fst (build self env)) = memory_info_rss env)"
proof -
  have exact: "int_of_double (double_mul (double_of_int (sint reading)) 1000) = sint reading * 1000"
    if "\<bar>sint reading\<bar> * 1000 < 2 ^ 56"
    using that by (rule times_1000_exact)
  have exact': "int_of_double (double_mul (double_of_int (sint reading)) 1000) = sint reading * 1000"
    if "\<bar>sint reading\<bar> < 2 ^ 46"
    using that by (intro times_1000_exact reading_in_range)
  show ?thesis
    using exact exact' by (simp add: build_max_rss)
qed

theorem build_max_rss_bytes_witness:
  "ru_maxrss (sample_env (Some 204800)) = Some 204800
   \<and> \<bar>sint (204800 :: 64 word)\<bar> * 1000 < 2 ^ 56
   \<and> \<bar>sint (204800 :: 64 word)\<bar> < 2 ^ 46
   \<and> sint (204800 :: 64 word) \<noteq> 0
   \<and> max_rss_bytes (fst (build (new_BlockExecStatsBuilder (sample_env None))
                            (sample_env (Some 204800)))) = 204800000
   \<and> max_rss_bytes (fst (build (new_BlockExecStatsBuilder (sample_env None))
                            (sample_env (Some 204800)))) \<noteq> 204800 * 1024
   \<and> ru_maxrss (sample_env None) = None
   \<and> max_rss_bytes (fst (build (new_BlockExecStatsBuilder (sample_env None))
                            (sample_env None))) = 52428800"
proof -
  have s: "sint (204800 :: 64 word) = 204800"
    by simp
  from build_max_rss_bytes
         [of "sample_env (Some 204800)" 204800 "new_BlockExecStatsBuilder (sample_env None)"]
       build_max_rss_bytes
         [of "sample_env None" 0 "new_BlockExecStatsBuilder (sample_env None)"]
  show ?thesis
    by (simp add: sample_env_def s)
qed

end
